theory Spec2Isabelle
  imports Complex_Main "HOL-Library.Word"
begin

section \<open>Values of the host language\<close>

text \<open>
  A JavaScript string is a sequence of UTF-16 code units, a \<open>Uint8Array\<close> a sequence of
  bytes. String literals of the source are written \<open>js ''...''\<close>.
\<close>

type_synonym jsstring = "16 word list"
type_synonym bytes = "8 word list"

definition js :: "string \<Rightarrow> jsstring" where
  "js s = map of_char s"

text \<open>
  A thrown value: an instance of \<open>Error\<close> (or a subclass such as \<open>SyntaxError\<close> or
  \<open>DOMException\<close>) with its \<open>message\<close>, or anything else (pako throws plain strings).
  A computation that may throw returns \<open>exn + 'a\<close>, \<open>Inl\<close> the thrown value.
\<close>

datatype exn = ErrorObject jsstring | NonError

text \<open>
  \<open>String.prototype.trim\<close>: strips the code units ECMAScript calls WhiteSpace or
  LineTerminator (TAB, LF, VT, FF, CR, SP, NBSP, U+1680, U+2000 to U+200A, U+2028, U+2029,
  U+202F, U+205F, U+3000, U+FEFF) from both ends.
\<close>

definition isWhiteSpace :: "16 word \<Rightarrow> bool" where
  "isWhiteSpace c =
     (c = 9 \<or> c = 10 \<or> c = 11 \<or> c = 12 \<or> c = 13 \<or> c = 32 \<or> c = 160 \<or> c = 5760 \<or>
      (8192 \<le> c \<and> c \<le> 8202) \<or> c = 8232 \<or> c = 8233 \<or> c = 8239 \<or> c = 8287 \<or>
      c = 12288 \<or> c = 65279)"

definition trim :: "jsstring \<Rightarrow> jsstring" where
  "trim s = rev (dropWhile isWhiteSpace (rev (dropWhile isWhiteSpace s)))"

text \<open>\<open>String.prototype.includes\<close>: the argument occurs as a contiguous run.\<close>

fun includes_str :: "jsstring \<Rightarrow> jsstring \<Rightarrow> bool" where
  "includes_str [] sub = (sub = [])"
| "includes_str (c # cs) sub = (take (length sub) (c # cs) = sub \<or> includes_str cs sub)"

section \<open>The platform functions the decode pipeline calls\<close>

text \<open>
  \<open>atob\<close>, \<open>pako.inflate\<close>, \<open>new TextDecoder().decode\<close>, \<open>JSON.parse\<close> and
  \<open>JSON.stringify(_, null, space)\<close> belong to the browser and to the pako library, not to
  this repository. They are parameters of the model: each is a function of its argument
  alone that returns or throws. \<open>'j\<close> is the type of parsed JSON values. The default
  \<open>TextDecoder\<close> is not fatal: it replaces malformed input and never throws.
\<close>

record 'j host =
  atob :: "jsstring \<Rightarrow> exn + jsstring"
  inflate :: "bytes \<Rightarrow> exn + bytes"
  utf8_decode :: "bytes \<Rightarrow> jsstring"
  JSON_parse :: "jsstring \<Rightarrow> exn + 'j"
  JSON_stringify :: "'j \<Rightarrow> nat \<Rightarrow> exn + jsstring"

section \<open>The page, the preview panel and the content script's fields\<close>

record FormatResult =
  success :: bool
  data :: "jsstring option"
  error :: "jsstring option"

text \<open>
  An event target is an element of the page, named by a reference, or one of the five
  elements \<open>createPreviewPanel\<close> builds: the panel \<open>div\<close>, its header, title, copy
  button and content area. \<open>PanelNode i part\<close> is that part of the \<open>i\<close>th panel
  appended to \<open>document.body\<close>.
\<close>

datatype panel_part = PanelDiv | HeaderDiv | TitleSpan | CopyButton | ContentDiv

datatype target = PageNode nat | PanelNode nat panel_part

record node =
  tagName :: jsstring
  node_value :: jsstring
  rect_left :: real
  rect_right :: real
  rect_top :: real

datatype theme = Light | Dark

text \<open>The entries of \<open>getThemeStyles\<close> that reach the modelled state.\<close>

record theme_styles =
  text_color :: jsstring
  buttonBg :: jsstring
  buttonHover :: jsstring
  errorText :: jsstring
  successBg :: jsstring

text \<open>
  The mutable properties of one panel subtree: \<open>panel.style.display\<close>, \<open>left\<close> and
  \<open>top\<close> (in px), \<open>content.textContent\<close> and \<open>content.style.color\<close>, the copy button's
  \<open>textContent\<close>, \<open>style.background\<close>, \<open>style.display\<close> and \<open>onclick\<close> (the
  \<open>result.data\<close> its closure captured), and the two colours the button's
  \<open>mouseenter\<close>/\<open>mouseleave\<close> closures captured. An unset style is the empty string.
\<close>

record panel_dom =
  display :: jsstring
  style_left :: "real option"
  style_top :: "real option"
  textContent :: jsstring
  content_color :: jsstring
  button_textContent :: jsstring
  button_background :: jsstring
  button_display :: jsstring
  button_onclick :: "jsstring option"
  hover_colors :: "jsstring \<times> jsstring"

text \<open>
  \<open>PreviewPanel\<close>: \<open>element\<close> refers to the panel subtree (an index into the panels of
  the document); \<open>content\<close> and \<open>copyButton\<close> of the source are the \<open>ContentDiv\<close> and
  \<open>CopyButton\<close> of the same subtree.
\<close>

record PreviewPanel =
  element :: nat
  isVisible :: bool

text \<open>
  The closures handed to \<open>setTimeout\<close>: the hover timer of \<open>startHoverTimer\<close> (it
  captured the textarea), the style reset of \<open>showErrorPreview\<close>, the reset of
  \<open>showCopyFeedback\<close> (it captured \<open>originalText\<close> and \<open>styles.buttonBg\<close>) and the
  delayed hide of \<open>handleMouseLeave\<close>.
\<close>

datatype callback =
    HoverTimer target
  | ErrorReset
  | CopyFeedbackReset jsstring jsstring
  | LeaveHide

text \<open>
  The state: the fields of \<open>PayloadFormatter\<close> first, then what the script reads and
  writes of its host. \<open>timers\<close> holds the pending timeouts (id, delay, closure);
  \<open>awsTheme\<close> is what \<open>detectAWSTheme\<close> returns (its DOM and colour heuristics are not
  modelled); \<open>panelHovered\<close> is \<open>panel.matches(':hover')\<close>; \<open>clipboardAvailable\<close> says
  whether \<open>navigator.clipboard.writeText\<close> can be called; \<open>pendingWrites\<close> are the texts
  of the \<open>writeText\<close> promises not yet settled; \<open>execCommandOk\<close> is what
  \<open>document.execCommand('copy')\<close> achieves, \<open>execCopies\<close> the texts it was run on;
  \<open>responses\<close> are the results passed to \<open>sendResponse\<close>; \<open>console\<close> is the debug log.
\<close>

record world =
  lastRightClickedElement :: "target option"
  hoverTimeout :: "nat option"
  previewPanel :: "PreviewPanel option"
  currentHoveredTextarea :: "target option"
  lastMouseMoveTime :: int
  debugMode :: bool
  nodes :: "nat \<Rightarrow> node"
  panels :: "panel_dom list"
  timers :: "(nat \<times> nat \<times> callback) list"
  timerSeq :: nat
  hostname :: jsstring
  awsTheme :: theme
  innerWidth :: real
  innerHeight :: real
  panelHovered :: bool
  dynamoDBFormatterDebug :: bool
  clipboardAvailable :: bool
  pendingWrites :: "jsstring list"
  execCommandOk :: bool
  execCopies :: "jsstring list"
  clipboard :: "jsstring option"
  responses :: "FormatResult list"
  console :: "jsstring list"

fun tagName_of :: "world \<Rightarrow> target \<Rightarrow> jsstring" where
  "tagName_of w (PageNode r) = tagName (nodes w r)"
| "tagName_of w (PanelNode i CopyButton) = js ''BUTTON''"
| "tagName_of w (PanelNode i TitleSpan) = js ''SPAN''"
| "tagName_of w (PanelNode i part) = js ''DIV''"

text \<open>
  \<open>value\<close> and \<open>getBoundingClientRect()\<close> are read only of elements whose \<open>tagName\<close>
  was found to be \<open>TEXTAREA\<close>, which no panel element is.
\<close>

fun value_of :: "world \<Rightarrow> target \<Rightarrow> jsstring" where
  "value_of w (PageNode r) = node_value (nodes w r)"
| "value_of w (PanelNode i part) = []"

section \<open>The decode pipeline\<close>

text \<open>
  \<open>decodeBase64\<close>: the loop copies \<open>charCodeAt(i)\<close> into a zero-filled
  \<open>Uint8Array\<close>, which keeps the low eight bits.
\<close>

function decodeBase64_loop :: "jsstring \<Rightarrow> nat \<Rightarrow> bytes \<Rightarrow> bytes" where
  "decodeBase64_loop binaryString i bs =
     (if i < length binaryString
      then decodeBase64_loop binaryString (i + 1) (bs[i := ucast (binaryString ! i)])
      else bs)"
  by pat_completeness auto
termination
  by (relation "measure (\<lambda>(s, i, bs). length s - i)") auto

definition decodeBase64 :: "'j host \<Rightarrow> jsstring \<Rightarrow> exn + bytes" where
  "decodeBase64 h base64String =
     (case atob h base64String of
        Inl e \<Rightarrow> Inl (ErrorObject (js ''Invalid base64 encoding''))
      | Inr binaryString \<Rightarrow>
          Inr (decodeBase64_loop binaryString 0 (replicate (length binaryString) 0)))"

definition decompressGzip :: "'j host \<Rightarrow> bytes \<Rightarrow> exn + bytes" where
  "decompressGzip h compressedData =
     (case inflate h compressedData of
        Inl e \<Rightarrow> Inl (ErrorObject (js ''Failed to decompress gzip data''))
      | Inr decompressed \<Rightarrow> Inr decompressed)"

text \<open>
  \<open>copyToClipboard\<close> is \<open>async\<close>: the call runs up to its \<open>await\<close> and returns a
  promise, so it never throws into its caller. Where \<open>navigator.clipboard\<close> is missing the
  call to \<open>writeText\<close> throws inside the \<open>try\<close> and the \<open>catch\<close> block runs at once;
  otherwise the write is pending until the host settles the promise
  (\<open>settleWriteText\<close>), and a rejection runs the \<open>catch\<close> block then. The \<open>catch\<close>
  block copies through a temporary textarea and \<open>document.execCommand('copy')\<close>.
\<close>

definition copyFallback :: "world \<Rightarrow> jsstring \<Rightarrow> world" where
  "copyFallback w txt =
     w\<lparr>execCopies := execCopies w @ [txt],
       clipboard := (if execCommandOk w then Some txt else clipboard w)\<rparr>"

definition copyToClipboard :: "world \<Rightarrow> jsstring \<Rightarrow> world" where
  "copyToClipboard w txt =
     (if clipboardAvailable w then w\<lparr>pendingWrites := pendingWrites w @ [txt]\<rparr>
      else copyFallback w txt)"

definition settleWriteText :: "world \<Rightarrow> bool \<Rightarrow> world" where
  "settleWriteText w resolved =
     (case pendingWrites w of
        [] \<Rightarrow> w
      | txt # rest \<Rightarrow>
          (if resolved then w\<lparr>pendingWrites := rest, clipboard := Some txt\<rparr>
           else copyFallback (w\<lparr>pendingWrites := rest\<rparr>) txt))"

text \<open>
  \<open>processPayload\<close> of the content script with the hover preview. A method returns its
  outcome (\<open>Inl\<close>: an exception leaves it) and the state it leaves behind.
\<close>

definition processPayload :: "'j host \<Rightarrow> world \<Rightarrow> jsstring \<Rightarrow> (exn + FormatResult) \<times> world" where
  "processPayload h w base64Content =
     (case decodeBase64 h base64Content of
        Inl e \<Rightarrow> (Inr \<lparr>success = False, data = None, error = None\<rparr>, w)
      | Inr binaryData \<Rightarrow>
     (case decompressGzip h binaryData of
        Inl e \<Rightarrow> (Inr \<lparr>success = False, data = None, error = None\<rparr>, w)
      | Inr decompressedData \<Rightarrow>
     (case JSON_parse h (utf8_decode h decompressedData) of
        Inl e \<Rightarrow> (Inr \<lparr>success = False, data = None, error = None\<rparr>, w)
      | Inr parsedJson \<Rightarrow>
     (case JSON_stringify h parsedJson 2 of
        Inl e \<Rightarrow> (Inr \<lparr>success = False, data = None, error = None\<rparr>, w)
      | Inr formattedJson \<Rightarrow>
          (Inr \<lparr>success = True, data = Some formattedJson, error = None\<rparr>, w)))))"

text \<open>
  \<open>processPayload\<close> of \<open>src/content.ts\<close>, the content script without the hover preview:
  it copies to the clipboard itself and reports the thrown error's message.
\<close>

definition failure_src :: "exn \<Rightarrow> FormatResult" where
  "failure_src e =
     \<lparr>success = False, data = None,
      error = Some (js ''Failed to process payload: '' @
                (case e of ErrorObject m \<Rightarrow> m | NonError \<Rightarrow> js ''Unknown error''))\<rparr>"

definition processPayload_src :: "'j host \<Rightarrow> world \<Rightarrow> jsstring \<Rightarrow> (exn + FormatResult) \<times> world" where
  "processPayload_src h w base64Content =
     (case decodeBase64 h base64Content of
        Inl e \<Rightarrow> (Inr (failure_src e), w)
      | Inr binaryData \<Rightarrow>
     (case decompressGzip h binaryData of
        Inl e \<Rightarrow> (Inr (failure_src e), w)
      | Inr decompressedData \<Rightarrow>
     (case JSON_parse h (utf8_decode h decompressedData) of
        Inl e \<Rightarrow> (Inr (failure_src e), w)
      | Inr parsedJson \<Rightarrow>
     (case JSON_stringify h parsedJson 2 of
        Inl e \<Rightarrow> (Inr (failure_src e), w)
      | Inr formattedJson \<Rightarrow>
          (Inr \<lparr>success = True, data = Some formattedJson, error = None\<rparr>,
           copyToClipboard w formattedJson)))))"

section \<open>The content script with the hover preview\<close>

definition debug :: "world \<Rightarrow> jsstring \<Rightarrow> world" where
  "debug w message = (if debugMode w then w\<lparr>console := console w @ [message]\<rparr> else w)"

text \<open>
  \<open>window.setTimeout\<close> returns a fresh handle greater than zero and keeps the closure
  until it fires or is cleared; \<open>clearTimeout\<close> drops it.
\<close>

definition setTimeout :: "world \<Rightarrow> callback \<Rightarrow> nat \<Rightarrow> nat \<times> world" where
  "setTimeout w cb delay =
     (Suc (timerSeq w),
      w\<lparr>timers := timers w @ [(Suc (timerSeq w), delay, cb)], timerSeq := Suc (timerSeq w)\<rparr>)"

definition clearTimeout :: "world \<Rightarrow> nat \<Rightarrow> world" where
  "clearTimeout w n = w\<lparr>timers := filter (\<lambda>t. fst t \<noteq> n) (timers w)\<rparr>"

definition detectAWSTheme :: "world \<Rightarrow> theme" where
  "detectAWSTheme w = awsTheme w"

definition getThemeStyles :: "theme \<Rightarrow> theme_styles" where
  "getThemeStyles t =
     (case t of
        Dark \<Rightarrow>
          \<lparr>text_color = js ''#e2e8f0'', buttonBg = js ''#4299e1'', buttonHover = js ''#3182ce'',
           errorText = js ''#fed7d7'', successBg = js ''#48bb78''\<rparr>
      | Light \<Rightarrow>
          \<lparr>text_color = js ''#2d3748'', buttonBg = js ''#3182ce'', buttonHover = js ''#2c5aa0'',
           errorText = js ''#e53e3e'', successBg = js ''#38a169''\<rparr>)"

text \<open>
  Writes through \<open>this._previewPanel\<close>: \<open>panel_update f\<close> changes the properties of the
  subtree \<open>element\<close> refers to, \<open>set_isVisible\<close> the flag of the object itself.
\<close>

definition panel_update :: "(panel_dom \<Rightarrow> panel_dom) \<Rightarrow> world \<Rightarrow> world" where
  "panel_update f w =
     (case previewPanel w of
        None \<Rightarrow> w
      | Some p \<Rightarrow> w\<lparr>panels := (panels w)[element p := f (panels w ! element p)]\<rparr>)"

definition set_isVisible :: "bool \<Rightarrow> world \<Rightarrow> world" where
  "set_isVisible b w =
     (case previewPanel w of
        None \<Rightarrow> w
      | Some p \<Rightarrow> w\<lparr>previewPanel := Some (p\<lparr>isVisible := b\<rparr>)\<rparr>)"

definition createPreviewPanel :: "world \<Rightarrow> world" where
  "createPreviewPanel w =
     (let styles = getThemeStyles (detectAWSTheme w);
          panel = \<lparr>display = js ''none'', style_left = None, style_top = None,
                   textContent = [], content_color = [], button_textContent = js ''Copy'',
                   button_background = buttonBg styles, button_display = [],
                   button_onclick = None,
                   hover_colors = (buttonHover styles, buttonBg styles)\<rparr>
      in w\<lparr>panels := panels w @ [panel],
           previewPanel := Some \<lparr>element = length (panels w), isVisible = False\<rparr>\<rparr>)"

text \<open>
  \<open>new PayloadFormatter()\<close>: the field initialisers, then the constructor. The listeners
  \<open>attachEventListeners\<close>, \<open>registerMessageHandler\<close> and \<open>createPreviewPanel\<close> register
  are the cases of \<open>dispatch\<close> below.
\<close>

definition new_PayloadFormatter :: "world \<Rightarrow> world" where
  "new_PayloadFormatter w =
     (let w1 = w\<lparr>lastRightClickedElement := None, hoverTimeout := None, previewPanel := None,
                 currentHoveredTextarea := None, lastMouseMoveTime := 0, debugMode := False\<rparr>;
          w2 = createPreviewPanel w1
      in if dynamoDBFormatterDebug w2 then w2\<lparr>debugMode := True\<rparr> else w2)"

definition clearHoverTimer :: "world \<Rightarrow> world" where
  "clearHoverTimer w =
     (case hoverTimeout w of
        None \<Rightarrow> w
      | Some n \<Rightarrow>
          (if n \<noteq> 0
           then (clearTimeout (debug w (js ''clearing hover timer'')) n)\<lparr>hoverTimeout := None\<rparr>
           else w))"

definition hidePreviewPanel :: "world \<Rightarrow> world" where
  "hidePreviewPanel w =
     clearHoverTimer
       (case previewPanel w of
          None \<Rightarrow> w
        | Some p \<Rightarrow>
            (if isVisible p
             then set_isVisible False
                    (panel_update (\<lambda>d. d\<lparr>display := js ''none''\<rparr>)
                       (debug w (js ''hiding preview panel'')))
             else w))"

fun rect_of :: "world \<Rightarrow> target \<Rightarrow> real \<times> real \<times> real" where
  "rect_of w (PageNode r) =
     (rect_left (nodes w r), rect_right (nodes w r), rect_top (nodes w r))"
| "rect_of w (PanelNode i part) = (0, 0, 0)"

text \<open>Coordinates are real numbers here; the rounding of doubles is not modelled.\<close>

definition positionPanel :: "world \<Rightarrow> target \<Rightarrow> world" where
  "positionPanel w textarea =
     (case previewPanel w of
        None \<Rightarrow> w
      | Some p \<Rightarrow>
          (case rect_of w textarea of
             (rleft, rright, rtop) \<Rightarrow>
               (let left0 = rright + 10;
                    top0 = rtop;
                    left1 = (if left0 + 500 > innerWidth w then rleft - 510 else left0);
                    top1 = (if top0 + 400 > innerHeight w then innerHeight w - 400 - 10
                            else top0);
                    top2 = (if top1 < 10 then 10 else top1)
                in panel_update
                     (\<lambda>d. d\<lparr>style_left := Some (max 10 left1), style_top := Some top2\<rparr>) w)))"

definition showPreviewPanel :: "world \<Rightarrow> jsstring \<Rightarrow> target \<Rightarrow> world" where
  "showPreviewPanel w content textarea =
     (case previewPanel w of
        None \<Rightarrow> w
      | Some p \<Rightarrow>
          positionPanel
            (panel_update (\<lambda>d. d\<lparr>display := js ''block''\<rparr>)
               (set_isVisible True
                  (panel_update (\<lambda>d. d\<lparr>textContent := content\<rparr>) w)))
            textarea)"

definition showErrorPreview :: "world \<Rightarrow> jsstring \<Rightarrow> target \<Rightarrow> world" where
  "showErrorPreview w err textarea =
     (case previewPanel w of
        None \<Rightarrow> w
      | Some p \<Rightarrow>
          (let styles = getThemeStyles (detectAWSTheme w);
               w1 = panel_update
                      (\<lambda>d. d\<lparr>textContent := js ''Error: '' @ err,
                              content_color := errorText styles,
                              button_display := js ''none''\<rparr>) w;
               w2 = panel_update (\<lambda>d. d\<lparr>display := js ''block''\<rparr>) (set_isVisible True w1);
               w3 = positionPanel w2 textarea
           in snd (setTimeout w3 ErrorReset 3000)))"

definition showCopyFeedback :: "world \<Rightarrow> world" where
  "showCopyFeedback w =
     (case previewPanel w of
        None \<Rightarrow> w
      | Some p \<Rightarrow>
          (let styles = getThemeStyles (detectAWSTheme w);
               originalText = button_textContent (panels w ! element p);
               w1 = panel_update
                      (\<lambda>d. d\<lparr>button_textContent := js ''Copied!'',
                              button_background := successBg styles\<rparr>) w
           in snd (setTimeout w1 (CopyFeedbackReset originalText (buttonBg styles)) 1000)))"

definition startHoverTimer :: "world \<Rightarrow> target \<Rightarrow> world" where
  "startHoverTimer w textarea =
     (let w1 = clearHoverTimer w;
          w2 = w1\<lparr>currentHoveredTextarea := Some textarea\<rparr>;
          w3 = debug w2 (js ''starting hover timer'')
      in case setTimeout w3 (HoverTimer textarea) 300 of
           (n, w4) \<Rightarrow> w4\<lparr>hoverTimeout := Some n\<rparr>)"

definition isInDynamoDBConsole :: "world \<Rightarrow> bool" where
  "isInDynamoDBConsole w = includes_str (hostname w) (js ''console.aws.amazon.com'')"

definition handleMouseMove :: "world \<Rightarrow> target \<Rightarrow> int \<Rightarrow> world" where
  "handleMouseMove w tgt now =
     (if now - lastMouseMoveTime w < 100 then w
      else
        (let w1 = w\<lparr>lastMouseMoveTime := now\<rparr>
         in if tagName_of w1 tgt = js ''TEXTAREA'' \<and> isInDynamoDBConsole w1
            then (if currentHoveredTextarea w1 \<noteq> Some tgt then startHoverTimer w1 tgt
                  else w1)
            else (if currentHoveredTextarea w1 \<noteq> None
                  then hidePreviewPanel
                         (clearHoverTimer (w1\<lparr>currentHoveredTextarea := None\<rparr>))
                  else w1)))"

text \<open>\<open>handleMouseLeave\<close> is defined by the class and registered for no event.\<close>

definition handleMouseLeave :: "world \<Rightarrow> target \<Rightarrow> world" where
  "handleMouseLeave w tgt =
     (if tagName_of w tgt = js ''TEXTAREA''
      then
        (let w1 = debug w (js ''mouseleave on textarea'');
             w2 = (if currentHoveredTextarea w1 = Some tgt
                   then w1\<lparr>currentHoveredTextarea := None\<rparr> else w1);
             w3 = clearHoverTimer w2
         in snd (setTimeout w3 LeaveHide 100))
      else w)"

text \<open>\<open>result.success && result.data\<close>: the data is present and not the empty string.\<close>

definition has_data :: "FormatResult \<Rightarrow> bool" where
  "has_data result =
     (success result \<and> (case data result of None \<Rightarrow> False | Some d \<Rightarrow> d \<noteq> []))"

definition showPreviewForTextarea :: "'j host \<Rightarrow> world \<Rightarrow> target \<Rightarrow> (exn + unit) \<times> world" where
  "showPreviewForTextarea h w textarea =
     (if previewPanel w = None \<or> trim (value_of w textarea) = [] then (Inr (), w)
      else
        (case processPayload h w (trim (value_of w textarea)) of
           (Inl e, w1) \<Rightarrow> (Inl e, w1)
         | (Inr result, w1) \<Rightarrow>
             (if has_data result
              then (Inr (),
                    panel_update (\<lambda>d. d\<lparr>button_onclick := data result\<rparr>)
                      (showPreviewPanel w1 (the (data result)) textarea))
              else (Inr (), hidePreviewPanel w1))))"

definition formatCurrentElement :: "'j host \<Rightarrow> world \<Rightarrow> (exn + FormatResult) \<times> world" where
  "formatCurrentElement h w =
     (case lastRightClickedElement w of
        None \<Rightarrow>
          (Inr \<lparr>success = False, data = None, error = Some (js ''No element selected'')\<rparr>, w)
      | Some textarea \<Rightarrow>
          (if tagName_of w textarea \<noteq> js ''TEXTAREA''
           then (Inr \<lparr>success = False, data = None,
                      error = Some (js ''Selected element is not a textarea'')\<rparr>, w)
           else
             (let content = trim (value_of w textarea)
              in if content = []
                 then (Inr \<lparr>success = False, data = None,
                            error = Some (js ''Textarea is empty'')\<rparr>, w)
                 else
                   (case processPayload h w content of
                      (Inl e, w1) \<Rightarrow> (Inl e, w1)
                    | (Inr result, w1) \<Rightarrow>
                        (if has_data result
                         then (Inr result, copyToClipboard w1 (the (data result)))
                         else (Inr result, w1))))))"

text \<open>\<open>formatCurrentElement\<close> of \<open>src/content.ts\<close>.\<close>

definition formatCurrentElement_src :: "'j host \<Rightarrow> world \<Rightarrow> (exn + FormatResult) \<times> world" where
  "formatCurrentElement_src h w =
     (case lastRightClickedElement w of
        None \<Rightarrow>
          (Inr \<lparr>success = False, data = None, error = Some (js ''No element selected'')\<rparr>, w)
      | Some textarea \<Rightarrow>
          (if tagName_of w textarea \<noteq> js ''TEXTAREA''
           then (Inr \<lparr>success = False, data = None,
                      error = Some (js ''Selected element is not a textarea'')\<rparr>, w)
           else
             (let content = trim (value_of w textarea)
              in if content = []
                 then (Inr \<lparr>success = False, data = None,
                            error = Some (js ''Textarea is empty'')\<rparr>, w)
                 else processPayload_src h w content)))"

subsection \<open>Events\<close>

text \<open>
  What the page and the browser deliver: the DOM events the script listens to, a message
  of the background script, a timeout that fires, a \<open>writeText\<close> promise that settles
  (resolved or rejected), and the page changing an element or the pointer entering or
  leaving the panel between events.
\<close>

datatype event =
    ContextMenu target
  | MouseMove target int
  | Click target
  | MouseEnter target
  | MouseLeave target
  | Message jsstring
  | TimerFired nat
  | WriteTextSettled bool
  | SetNode nat node
  | SetPanelHovered bool

definition runCallback :: "'j host \<Rightarrow> world \<Rightarrow> callback \<Rightarrow> world" where
  "runCallback h w cb =
     (case cb of
        HoverTimer textarea \<Rightarrow>
          (let w1 = debug w (js ''hover timer fired'')
           in if currentHoveredTextarea w1 = Some textarea
              then snd (showPreviewForTextarea h w1 textarea) else w1)
      | ErrorReset \<Rightarrow>
          panel_update
            (\<lambda>d. d\<lparr>content_color := text_color (getThemeStyles (detectAWSTheme w)),
                    button_display := js ''block''\<rparr>) w
      | CopyFeedbackReset originalText bg \<Rightarrow>
          panel_update (\<lambda>d. d\<lparr>button_textContent := originalText, button_background := bg\<rparr>) w
      | LeaveHide \<Rightarrow>
          (if previewPanel w \<noteq> None \<and> panelHovered w then w else hidePreviewPanel w))"

definition fireTimer :: "'j host \<Rightarrow> world \<Rightarrow> nat \<Rightarrow> world" where
  "fireTimer h w n =
     (case map_of (timers w) n of
        None \<Rightarrow> w
      | Some (delay, cb) \<Rightarrow> runCallback h (w\<lparr>timers := filter (\<lambda>t. fst t \<noteq> n) (timers w)\<rparr>) cb)"

text \<open>The two \<open>click\<close> listeners of the document are the same function.\<close>

definition clickListener :: "world \<Rightarrow> target \<Rightarrow> world" where
  "clickListener w tgt =
     (case previewPanel w of
        None \<Rightarrow> w
      | Some p \<Rightarrow>
          (if isVisible p \<and> \<not> (case tgt of PageNode r \<Rightarrow> False | PanelNode i part \<Rightarrow> i = element p)
           then hidePreviewPanel w else w))"

text \<open>
  The copy button's \<open>onclick\<close>, set by \<open>showPreviewForTextarea\<close>, runs before the click
  reaches the document's listeners.
\<close>

definition copyButtonClick :: "world \<Rightarrow> nat \<Rightarrow> world" where
  "copyButtonClick w i =
     (if i < length (panels w) then
        (case button_onclick (panels w ! i) of
           None \<Rightarrow> w
         | Some d \<Rightarrow> showCopyFeedback (copyToClipboard w d))
      else w)"

definition buttonHoverListener :: "world \<Rightarrow> nat \<Rightarrow> bool \<Rightarrow> world" where
  "buttonHoverListener w i entering =
     (if i < length (panels w) then
        w\<lparr>panels := (panels w)[i := (panels w ! i)
             \<lparr>button_background :=
                (if entering then fst (hover_colors (panels w ! i))
                 else snd (hover_colors (panels w ! i)))\<rparr>]\<rparr>
      else w)"

definition panelMouseEnter :: "world \<Rightarrow> world" where
  "panelMouseEnter w =
     (case hoverTimeout w of
        None \<Rightarrow> w
      | Some n \<Rightarrow> (if n \<noteq> 0 then (clearTimeout w n)\<lparr>hoverTimeout := None\<rparr> else w))"

definition onMessage :: "'j host \<Rightarrow> world \<Rightarrow> jsstring \<Rightarrow> world" where
  "onMessage h w action =
     (if action = js ''formatPayload''
      then (case formatCurrentElement h w of
              (Inl e, w1) \<Rightarrow> w1
            | (Inr result, w1) \<Rightarrow> w1\<lparr>responses := responses w1 @ [result]\<rparr>)
      else w)"

definition dispatch :: "'j host \<Rightarrow> event \<Rightarrow> world \<Rightarrow> world" where
  "dispatch h e w =
     (case e of
        ContextMenu tgt \<Rightarrow> w\<lparr>lastRightClickedElement := Some tgt\<rparr>
      | MouseMove tgt now \<Rightarrow> handleMouseMove w tgt now
      | Click tgt \<Rightarrow>
          (let w1 = (case tgt of PanelNode i CopyButton \<Rightarrow> copyButtonClick w i | _ \<Rightarrow> w)
           in clickListener (clickListener w1 tgt) tgt)
      | MouseEnter tgt \<Rightarrow>
          (case tgt of
             PanelNode i PanelDiv \<Rightarrow> panelMouseEnter w
           | PanelNode i CopyButton \<Rightarrow> buttonHoverListener w i True
           | _ \<Rightarrow> w)
      | MouseLeave tgt \<Rightarrow>
          (case tgt of PanelNode i CopyButton \<Rightarrow> buttonHoverListener w i False | _ \<Rightarrow> w)
      | Message action \<Rightarrow> onMessage h w action
      | TimerFired n \<Rightarrow> fireTimer h w n
      | WriteTextSettled resolved \<Rightarrow> settleWriteText w resolved
      | SetNode r n \<Rightarrow> w\<lparr>nodes := (nodes w)(r := n)\<rparr>
      | SetPanelHovered b \<Rightarrow> w\<lparr>panelHovered := b\<rparr>)"

fun run :: "'j host \<Rightarrow> event list \<Rightarrow> world \<Rightarrow> world" where
  "run h [] w = w"
| "run h (e # es) w = run h es (dispatch h e w)"

subsection \<open>The background script\<close>

text \<open>
  The message of the notification the \<open>contextMenus.onClicked\<close> listener creates, given
  what \<open>chrome.tabs.sendMessage\<close> produced: \<open>None\<close> when it rejected or resolved with no
  response (reading \<open>response.success\<close> throws then), else the response. A template
  literal prints a missing \<open>error\<close> as \<open>undefined\<close>.
\<close>

definition notificationMessage :: "FormatResult option \<Rightarrow> jsstring" where
  "notificationMessage response =
     (case response of
        None \<Rightarrow>
          js ''Failed to format payload. Make sure you'' @ [39] @
          js ''re right-clicking on a textarea.''
      | Some r \<Rightarrow>
          (if success r then js ''Formatted JSON copied to clipboard!''
           else js ''Error: '' @ (case error r of None \<Rightarrow> js ''undefined'' | Some m \<Rightarrow> m)))"

section \<open>A host observed at three real payloads\<close>

text \<open>
  \<open>sample_host\<close> answers as a browser with pako does on the inputs listed and throws
  everywhere else: \<open>sample_b64\<close> is the base64 text of the gzip stream \<open>sample_gz\<close> of
  the UTF-8 bytes \<open>sample_raw\<close> of the JSON text \<open>{"a":1}\<close>; \<open>oops_b64\<close> is the base64
  text of the gzip stream of the four bytes \<open>oops\<close>, which is no JSON text; \<open>hello_b64\<close>
  is the base64 text of the five bytes \<open>hello\<close>, which are no gzip stream.
\<close>

datatype json = JNull | JBool bool | JNumber int | JString jsstring
  | JArray "json list" | JObject "(jsstring \<times> json) list"

definition sample_b64 :: jsstring where
  "sample_b64 = js ''H4sIAAAAAAAC/6tWSlSyMqwFAK+sG1YHAAAA''"

definition sample_gz :: bytes where
  "sample_gz = [31, 139, 8, 0, 0, 0, 0, 0, 2, 255, 171, 86, 74, 84, 178, 50, 172, 5, 0,
                175, 172, 27, 86, 7, 0, 0, 0]"

definition sample_raw :: bytes where
  "sample_raw = [123, 34, 97, 34, 58, 49, 125]"

definition sample_text :: jsstring where
  "sample_text = [123, 34, 97, 34, 58, 49, 125]"

definition sample_json :: json where
  "sample_json = JObject [(js ''a'', JNumber 1)]"

definition sample_pretty :: jsstring where
  "sample_pretty = [123, 10, 32, 32, 34, 97, 34, 58, 32, 49, 10, 125]"

definition oops_b64 :: jsstring where
  "oops_b64 = js ''H4sIAAAAAAAC/8vPLygGACTtuecEAAAA''"

definition oops_gz :: bytes where
  "oops_gz = [31, 139, 8, 0, 0, 0, 0, 0, 2, 255, 203, 207, 47, 40, 6, 0, 36, 237, 185,
              231, 4, 0, 0, 0]"

definition oops_raw :: bytes where
  "oops_raw = [111, 111, 112, 115]"

definition hello_b64 :: jsstring where
  "hello_b64 = js ''aGVsbG8=''"

definition hello_raw :: bytes where
  "hello_raw = [104, 101, 108, 108, 111]"

definition sample_host :: "json host" where
  "sample_host =
     \<lparr>atob = (\<lambda>s. if s = sample_b64 then Inr (map ucast sample_gz)
                  else if s = oops_b64 then Inr (map ucast oops_gz)
                  else if s = hello_b64 then Inr (map ucast hello_raw)
                  else Inl (ErrorObject (js ''The string to be decoded is not correctly encoded.''))),
      inflate = (\<lambda>b. if b = sample_gz then Inr sample_raw
                  else if b = oops_gz then Inr oops_raw
                  else Inl NonError),
      utf8_decode = map ucast,
      JSON_parse = (\<lambda>t. if t = sample_text then Inr sample_json
                  else Inl (ErrorObject (js ''Unexpected token''))),
      JSON_stringify = (\<lambda>v space. if v = sample_json \<and> space = 2 then Inr sample_pretty
                  else Inl (ErrorObject (js ''not in the table'')))\<rparr>"

text \<open>
  A page of the console: element 1 is a textarea holding the sample payload between
  blanks, element 2 a textarea holding \<open>hello_b64\<close>, element 3 a textarea of blanks,
  element 4 an \<open>input\<close>, element 5 a textarea holding \<open>oops_b64\<close>; every other element
  is a \<open>div\<close>. The content script has not run yet.
\<close>

definition textarea :: "jsstring \<Rightarrow> real \<Rightarrow> node" where
  "textarea v y =
     \<lparr>tagName = js ''TEXTAREA'', node_value = v, rect_left = 100, rect_right = 400,
      rect_top = y\<rparr>"

definition sample_nodes :: "nat \<Rightarrow> node" where
  "sample_nodes r =
     (if r = 1 then textarea (js ''  '' @ sample_b64 @ [10]) 50
      else if r = 2 then textarea hello_b64 150
      else if r = 3 then textarea (js ''   '') 250
      else if r = 4 then
        \<lparr>tagName = js ''INPUT'', node_value = js ''abc'', rect_left = 100, rect_right = 400,
         rect_top = 350\<rparr>
      else if r = 5 then textarea oops_b64 450
      else
        \<lparr>tagName = js ''DIV'', node_value = [], rect_left = 0, rect_right = 1280,
         rect_top = 0\<rparr>)"

definition sample_page :: world where
  "sample_page =
     \<lparr>lastRightClickedElement = None, hoverTimeout = None, previewPanel = None,
      currentHoveredTextarea = None, lastMouseMoveTime = 0, debugMode = False,
      nodes = sample_nodes, panels = [], timers = [], timerSeq = 0,
      hostname = js ''us-east-1.console.aws.amazon.com'', awsTheme = Light,
      innerWidth = 1280, innerHeight = 720, panelHovered = False,
      dynamoDBFormatterDebug = False, clipboardAvailable = True, pendingWrites = [],
      execCommandOk = True, execCopies = [], clipboard = None, responses = [],
      console = []\<rparr>"

text \<open>
  The page after the content script has loaded; then with the pointer resting on
  element 1 until the hover timer has fired; then with the pointer moved on to the blank
  textarea, element 3.
\<close>

definition loaded_page :: world where
  "loaded_page = new_PayloadFormatter sample_page"

definition preview_shown :: world where
  "preview_shown = run sample_host [MouseMove (PageNode 1) 1000, TimerFired 1] loaded_page"

definition blank_hovered :: world where
  "blank_hovered = dispatch sample_host (MouseMove (PageNode 3) 1200) preview_shown"

section \<open>Predicates the properties are stated with\<close>

text \<open>
  The input fails a stage of the pipeline: \<open>atob\<close> throws (no valid base64), or
  \<open>pako.inflate\<close> throws on the decoded bytes (no valid gzip data), or \<open>JSON.parse\<close>
  throws on the decoded text (no valid JSON).
\<close>

definition stage_fails :: "'j host \<Rightarrow> jsstring \<Rightarrow> bool" where
  "stage_fails h s =
     (case atob h s of
        Inl e \<Rightarrow> True
      | Inr binaryString \<Rightarrow>
          (case inflate h (map ucast binaryString) of
             Inl e \<Rightarrow> True
           | Inr raw \<Rightarrow> isl (JSON_parse h (utf8_decode h raw))))"

text \<open>
  The identity of the preview panel: which subtree \<open>_previewPanel.element\<close> refers to,
  and how many panel subtrees the document holds.
\<close>


definition panel_ids :: "world \<Rightarrow> nat option \<times> nat" where
  "panel_ids w = (map_option element (previewPanel w), length (panels w))"

text \<open>What is visible: the \<open>PreviewPanel\<close> object and the \<open>display\<close> of every panel.\<close>

definition visibility :: "world \<Rightarrow> PreviewPanel option \<times> jsstring list" where
  "visibility w = (previewPanel w, map display (panels w))"

text \<open>
  \<open>isVisible\<close> agrees with the \<open>display\<close> style of the panel element: true exactly when
  it is \<open>block\<close>, false exactly when it is \<open>none\<close>.
\<close>

definition panel_consistent :: "world \<Rightarrow> bool" where
  "panel_consistent w =
     (case previewPanel w of
        None \<Rightarrow> True
      | Some p \<Rightarrow>
          element p < length (panels w) \<and>
          (isVisible p = (display (panels w ! element p) = js ''block'')) \<and>
          ((\<not> isVisible p) = (display (panels w ! element p) = js ''none'')))"


lemmas sample_payloads =
  sample_b64_def sample_gz_def sample_raw_def sample_text_def oops_b64_def oops_gz_def
  oops_raw_def hello_b64_def hello_raw_def js_def

section \<open>Properties of the decode pipeline\<close>

lemma decodeBase64_loop_eq:
  "i \<le> length s \<Longrightarrow> length bs = length s \<Longrightarrow>
   decodeBase64_loop s i bs = take i bs @ map ucast (drop i s)"
proof (induction s i bs rule: decodeBase64_loop.induct)
  case (1 s i bs)
  show ?case
  proof (cases "i < length s")
    case True
    have step: "decodeBase64_loop s i bs =
                decodeBase64_loop s (i + 1) (bs[i := ucast (s ! i)])"
      using True by simp
    have ih: "decodeBase64_loop s (i + 1) (bs[i := ucast (s ! i)]) =
              take (i + 1) (bs[i := ucast (s ! i)]) @ map ucast (drop (i + 1) s)"
      using "1.IH" [OF True] True "1.prems" by simp
    have t: "take (i + 1) (bs[i := ucast (s ! i)]) = take i bs @ [ucast (s ! i)]"
      using True "1.prems" by (simp add: take_Suc_conv_app_nth)
    have d: "drop i s = s ! i # drop (i + 1) s"
      using True by (simp add: Cons_nth_drop_Suc)
    show ?thesis
      unfolding step ih t d by simp
  next
    case False
    with "1.prems" show ?thesis by simp
  qed
qed

lemma decodeBase64_loop_full:
  "decodeBase64_loop s 0 (replicate (length s) 0) = map ucast s"
  using decodeBase64_loop_eq [of 0 s "replicate (length s) 0"] by simp

lemma ucast_bytes_roundtrip:
  "map (ucast :: 16 word \<Rightarrow> 8 word) (map (ucast :: 8 word \<Rightarrow> 16 word) gz) = gz"
  by (induction gz) (simp_all add: ucast_down_ucast_id is_down)

lemma decodeBase64_binary:
  assumes "atob h s = Inr (map ucast gz)"
  shows "decodeBase64 h s = Inr gz"
proof -
  have "decodeBase64 h s =
        Inr (decodeBase64_loop (map ucast gz) 0 (replicate (length (map ucast gz :: jsstring)) 0))"
    using assms by (simp add: decodeBase64_def del: decodeBase64_loop.simps)
  also have "\<dots> = Inr (map ucast (map ucast gz :: jsstring))"
    by (simp only: decodeBase64_loop_full)
  finally show ?thesis
    by (simp only: ucast_bytes_roundtrip)
qed


lemma decodeBase64_cases:
  "decodeBase64 h s =
     (case atob h s of
        Inl e \<Rightarrow> Inl (ErrorObject (js ''Invalid base64 encoding''))
      | Inr b \<Rightarrow> Inr (map ucast b))"
  by (simp add: decodeBase64_def decodeBase64_loop_full del: decodeBase64_loop.simps
      split: sum.splits)

text \<open>
  C1. A valid payload round-trips: when \<open>s\<close> is the base64 text of the bytes \<open>gz\<close>
  (\<open>atob\<close> returns them as a binary string), \<open>gz\<close> inflates to \<open>raw\<close>, the UTF-8
  decoding of \<open>raw\<close> is a JSON text that parses to the value \<open>v\<close>, and
  \<open>JSON.stringify(v, null, 2)\<close> is \<open>pretty\<close>, then \<open>processPayload\<close> (of either content
  script) returns the success result whose \<open>data\<close> is \<open>pretty\<close>.
\<close>

theorem processPayload_roundtrip:
  assumes "atob h s = Inr (map ucast gz)"
    and "inflate h gz = Inr raw"
    and "JSON_parse h (utf8_decode h raw) = Inr v"
    and "JSON_stringify h v 2 = Inr pretty"
  shows "fst (processPayload h w s) =
           Inr \<lparr>success = True, data = Some pretty, error = None\<rparr> \<and>
         fst (processPayload_src h w s) =
           Inr \<lparr>success = True, data = Some pretty, error = None\<rparr>"
proof -
  have b: "decodeBase64 h s = Inr gz"
    using assms(1) by (rule decodeBase64_binary)
  have g: "decompressGzip h gz = Inr raw"
    using assms(2) by (simp add: decompressGzip_def)
  show ?thesis
    by (simp add: processPayload_def processPayload_src_def b g assms(3) assms(4))
qed

theorem processPayload_roundtrip_witness:
  "atob sample_host sample_b64 = Inr (map ucast sample_gz) \<and>
   inflate sample_host sample_gz = Inr sample_raw \<and>
   JSON_parse sample_host (utf8_decode sample_host sample_raw) = Inr sample_json \<and>
   JSON_stringify sample_host sample_json 2 = Inr sample_pretty \<and>
   fst (processPayload sample_host sample_page sample_b64) =
     Inr \<lparr>success = True, data = Some sample_pretty, error = None\<rparr> \<and>
   fst (processPayload_src sample_host sample_page sample_b64) =
     Inr \<lparr>success = True, data = Some sample_pretty, error = None\<rparr>"
proof -
  have a: "atob sample_host sample_b64 = Inr (map ucast sample_gz)"
    by (simp add: sample_host_def)
  have i: "inflate sample_host sample_gz = Inr sample_raw"
    by (simp add: sample_host_def)
  have p: "JSON_parse sample_host (utf8_decode sample_host sample_raw) = Inr sample_json"
    by (simp add: sample_host_def sample_raw_def sample_text_def)
  have f: "JSON_stringify sample_host sample_json 2 = Inr sample_pretty"
    by (simp add: sample_host_def)
  show ?thesis
    using processPayload_roundtrip [OF a i p f, of sample_page] a i p f by simp
qed

text \<open>
  C2. \<open>processPayload\<close> (of either content script) never throws: on every input it
  returns a result, and on an input that fails a stage (invalid base64, invalid gzip data
  or invalid JSON) the result has \<open>success = false\<close>.
\<close>

theorem processPayload_never_throws:
  "(\<exists>r. fst (processPayload h w s) = Inr r \<and> (stage_fails h s \<longrightarrow> \<not> success r)) \<and>
   (\<exists>r. fst (processPayload_src h w s) = Inr r \<and> (stage_fails h s \<longrightarrow> \<not> success r))"
  by (simp add: processPayload_def processPayload_src_def decodeBase64_cases
      decompressGzip_def stage_fails_def failure_src_def split: sum.splits)

theorem processPayload_never_throws_witness:
  "stage_fails sample_host (js ''not base64!'') \<and>
   stage_fails sample_host hello_b64 \<and>
   stage_fails sample_host oops_b64 \<and>
   (\<exists>r. fst (processPayload sample_host sample_page (js ''not base64!'')) = Inr r \<and> \<not> success r) \<and>
   (\<exists>r. fst (processPayload sample_host sample_page hello_b64) = Inr r \<and> \<not> success r) \<and>
   (\<exists>r. fst (processPayload sample_host sample_page oops_b64) = Inr r \<and> \<not> success r) \<and>
   (\<exists>r. fst (processPayload_src sample_host sample_page (js ''not base64!'')) = Inr r \<and> \<not> success r) \<and>
   (\<exists>r. fst (processPayload_src sample_host sample_page hello_b64) = Inr r \<and> \<not> success r) \<and>
   (\<exists>r. fst (processPayload_src sample_host sample_page oops_b64) = Inr r \<and> \<not> success r)"
proof -
  have f1: "stage_fails sample_host (js ''not base64!'')"
    by (simp add: stage_fails_def sample_host_def sample_payloads)
  have f2: "stage_fails sample_host hello_b64"
    by (simp add: stage_fails_def sample_host_def sample_payloads)
  have f3: "stage_fails sample_host oops_b64"
    by (simp add: stage_fails_def sample_host_def sample_payloads)
  show ?thesis
    using processPayload_never_throws [of sample_host sample_page "js ''not base64!''"]
      processPayload_never_throws [of sample_host sample_page hello_b64]
      processPayload_never_throws [of sample_host sample_page oops_b64] f1 f2 f3
    by simp
qed


section \<open>The preview panel across events\<close>

lemma block_none [simp]: "js ''block'' \<noteq> js ''none''" "js ''none'' \<noteq> js ''block''"
  by (simp_all add: js_def)

lemma panel_consistent_visibility:
  "panel_consistent w =
     (case fst (visibility w) of
        None \<Rightarrow> True
      | Some p \<Rightarrow>
          element p < length (snd (visibility w)) \<and>
          (isVisible p = (snd (visibility w) ! element p = js ''block'')) \<and>
          ((\<not> isVisible p) = (snd (visibility w) ! element p = js ''none'')))"
  by (auto simp: panel_consistent_def visibility_def split: option.splits)

lemma panel_consistent_cong:
  assumes "visibility w' = visibility w"
  shows "panel_consistent w' = panel_consistent w"
  unfolding panel_consistent_visibility assms ..

lemma panel_ids_visibility:
  "visibility w' = visibility w \<Longrightarrow> panel_ids w' = panel_ids w"
  by (auto simp: visibility_def panel_ids_def dest: map_eq_imp_length_eq)

lemma visibility_panel_update:
  assumes "\<And>d. display (f d) = display d"
  shows "visibility (panel_update f w) = visibility w"
proof (cases "previewPanel w")
  case None
  then show ?thesis by (simp add: panel_update_def)
next
  case (Some p)
  have "map display ((panels w)[element p := f (panels w ! element p)]) = map display (panels w)"
  proof (cases "element p < length (panels w)")
    case True
    then show ?thesis by (simp add: map_update assms list_update_same_conv)
  next
    case False
    then have "length (panels w) \<le> element p" by arith
    then show ?thesis by (simp only: list_update_beyond)
  qed
  with Some show ?thesis
    by (simp add: panel_update_def visibility_def)
qed

lemma visibility_fields [simp]:
  "visibility (lastRightClickedElement_update f1 w) = visibility w"
  "visibility (hoverTimeout_update f2 w) = visibility w"
  "visibility (currentHoveredTextarea_update f3 w) = visibility w"
  "visibility (lastMouseMoveTime_update f4 w) = visibility w"
  "visibility (debugMode_update f5 w) = visibility w"
  "visibility (nodes_update f6 w) = visibility w"
  "visibility (timers_update f7 w) = visibility w"
  "visibility (timerSeq_update f8 w) = visibility w"
  "visibility (panelHovered_update f9 w) = visibility w"
  "visibility (pendingWrites_update f10 w) = visibility w"
  "visibility (execCopies_update f11 w) = visibility w"
  "visibility (clipboard_update f12 w) = visibility w"
  "visibility (responses_update f13 w) = visibility w"
  "visibility (console_update f14 w) = visibility w"
  by (simp_all add: visibility_def)

lemma processPayload_snd [simp]: "snd (processPayload h w s) = w"
  by (simp add: processPayload_def split: sum.splits)

lemma visibility_debug [simp]: "visibility (debug w m) = visibility w"
  by (simp add: debug_def)

lemma visibility_setTimeout [simp]: "visibility (snd (setTimeout w cb n)) = visibility w"
  by (simp add: setTimeout_def)

lemma visibility_clearTimeout [simp]: "visibility (clearTimeout w n) = visibility w"
  by (simp add: clearTimeout_def)

lemma visibility_clearHoverTimer [simp]: "visibility (clearHoverTimer w) = visibility w"
  by (simp add: clearHoverTimer_def split: option.splits)

lemma visibility_positionPanel [simp]: "visibility (positionPanel w t) = visibility w"
  by (simp add: positionPanel_def Let_def visibility_panel_update split: option.splits prod.splits)

lemma visibility_showCopyFeedback [simp]: "visibility (showCopyFeedback w) = visibility w"
  by (simp add: showCopyFeedback_def Let_def visibility_panel_update split: option.splits)

lemma visibility_copyToClipboard [simp]: "visibility (copyToClipboard w t) = visibility w"
  by (simp add: copyToClipboard_def copyFallback_def)

lemma visibility_settleWriteText [simp]: "visibility (settleWriteText w b) = visibility w"
  by (simp add: settleWriteText_def copyFallback_def split: list.splits)


lemma visibility_startHoverTimer [simp]: "visibility (startHoverTimer w t) = visibility w"
  by (simp add: startHoverTimer_def Let_def setTimeout_def)

lemma visibility_panelMouseEnter [simp]: "visibility (panelMouseEnter w) = visibility w"
  by (simp add: panelMouseEnter_def split: option.splits)

lemma visibility_buttonHoverListener [simp]: "visibility (buttonHoverListener w i b) = visibility w"
  by (simp add: buttonHoverListener_def visibility_def map_update list_update_same_conv)

lemma visibility_copyButtonClick [simp]: "visibility (copyButtonClick w i) = visibility w"
  by (simp add: copyButtonClick_def split: option.splits)

lemma panel_consistent_hide: "panel_consistent w \<Longrightarrow> panel_consistent (hidePreviewPanel w)"
proof -
  assume a: "panel_consistent w"
  have "panel_consistent (case previewPanel w of
          None \<Rightarrow> w
        | Some p \<Rightarrow>
            (if isVisible p
             then set_isVisible False
                    (panel_update (\<lambda>d. d\<lparr>display := js ''none''\<rparr>)
                       (debug w (js ''hiding preview panel'')))
             else w))"
    using a
    by (auto simp: panel_consistent_def set_isVisible_def panel_update_def debug_def
        split: option.splits)
  then show ?thesis
    by (simp add: hidePreviewPanel_def panel_consistent_cong [OF visibility_clearHoverTimer])
qed

lemma panel_consistent_show:
  "panel_consistent w \<Longrightarrow> panel_consistent (showPreviewPanel w c t)"
proof -
  assume a: "panel_consistent w"
  have "panel_consistent (panel_update (\<lambda>d. d\<lparr>display := js ''block''\<rparr>)
               (set_isVisible True
                  (panel_update (\<lambda>d. d\<lparr>textContent := c\<rparr>) w)))"
    using a
    by (auto simp: panel_consistent_def set_isVisible_def panel_update_def
        split: option.splits)
  then show ?thesis
    by (simp add: showPreviewPanel_def panel_consistent_cong [OF visibility_positionPanel]
        a split: option.splits)
qed

lemma panel_consistent_showError:
  "panel_consistent w \<Longrightarrow> panel_consistent (showErrorPreview w c t)"
proof -
  assume a: "panel_consistent w"
  have "panel_consistent (panel_update (\<lambda>d. d\<lparr>display := js ''block''\<rparr>)
               (set_isVisible True
                  (panel_update (\<lambda>d. d\<lparr>textContent := js ''Error: '' @ c,
                              content_color := x,
                              button_display := js ''none''\<rparr>) w)))" for x
    using a
    by (auto simp: panel_consistent_def set_isVisible_def panel_update_def
        split: option.splits)
  then show ?thesis
    by (simp add: showErrorPreview_def Let_def
        panel_consistent_cong [OF visibility_positionPanel]
        panel_consistent_cong [OF visibility_setTimeout]
        a split: option.splits)
qed

lemma panel_consistent_create: "panel_consistent (createPreviewPanel w)"
  by (simp add: panel_consistent_def createPreviewPanel_def Let_def)

lemma panel_consistent_new: "panel_consistent (new_PayloadFormatter w)"
  using panel_consistent_create [of "w\<lparr>lastRightClickedElement := None, hoverTimeout := None, previewPanel := None,
                 currentHoveredTextarea := None, lastMouseMoveTime := 0, debugMode := False\<rparr>"]
  by (simp add: new_PayloadFormatter_def Let_def panel_consistent_cong [OF visibility_fields(5)])


lemma panel_ids_panel_update [simp]: "panel_ids (panel_update f w) = panel_ids w"
  by (simp add: panel_ids_def panel_update_def split: option.splits)

lemma panel_ids_set_isVisible [simp]: "panel_ids (set_isVisible b w) = panel_ids w"
  by (simp add: panel_ids_def set_isVisible_def split: option.splits)

lemma panel_ids_frame [simp]:
  "panel_ids (debug w m) = panel_ids w"
  "panel_ids (clearHoverTimer w) = panel_ids w"
  "panel_ids (positionPanel w t) = panel_ids w"
  "panel_ids (startHoverTimer w t) = panel_ids w"
  "panel_ids (copyButtonClick w i) = panel_ids w"
  "panel_ids (copyToClipboard w c) = panel_ids w"
  "panel_ids (settleWriteText w b) = panel_ids w"
  "panel_ids (panelMouseEnter w) = panel_ids w"
  "panel_ids (buttonHoverListener w i b) = panel_ids w"
  by (rule panel_ids_visibility, simp)+

lemma panel_ids_fields [simp]:
  "panel_ids (lastRightClickedElement_update f1 w) = panel_ids w"
  "panel_ids (currentHoveredTextarea_update f3 w) = panel_ids w"
  "panel_ids (lastMouseMoveTime_update f4 w) = panel_ids w"
  "panel_ids (nodes_update f6 w) = panel_ids w"
  "panel_ids (timers_update f7 w) = panel_ids w"
  "panel_ids (panelHovered_update f9 w) = panel_ids w"
  "panel_ids (responses_update f13 w) = panel_ids w"
  by (simp_all add: panel_ids_def)

lemma panel_ids_hide [simp]: "panel_ids (hidePreviewPanel w) = panel_ids w"
  by (simp add: hidePreviewPanel_def split: option.splits)

lemma panel_ids_show [simp]: "panel_ids (showPreviewPanel w c t) = panel_ids w"
  by (simp add: showPreviewPanel_def split: option.splits)

lemma panel_ids_handleMouseMove [simp]: "panel_ids (handleMouseMove w t now) = panel_ids w"
  by (simp add: handleMouseMove_def Let_def)

lemma panel_consistent_handleMouseMove:
  "panel_consistent w \<Longrightarrow> panel_consistent (handleMouseMove w t now)"
  by (simp add: handleMouseMove_def Let_def panel_consistent_hide
      panel_consistent_cong [OF visibility_startHoverTimer]
      panel_consistent_cong [OF visibility_clearHoverTimer]
      panel_consistent_cong [OF visibility_fields(3)]
      panel_consistent_cong [OF visibility_fields(4)])

lemma showPreviewForTextarea_cases:
  "snd (showPreviewForTextarea h w t) = w \<or>
   snd (showPreviewForTextarea h w t) = hidePreviewPanel w \<or>
   (\<exists>d. snd (showPreviewForTextarea h w t) =
      panel_update (\<lambda>x. x\<lparr>button_onclick := Some d\<rparr>) (showPreviewPanel w d t))"
proof (cases "processPayload h w (trim (value_of w t))")
  case (Pair r w1)
  have w1: "w1 = w"
    using Pair processPayload_snd [of h w "trim (value_of w t)"] by simp
  show ?thesis
    by (cases r) (auto simp: showPreviewForTextarea_def Pair w1 has_data_def split: option.splits)
qed

lemma panel_ids_showPreviewForTextarea [simp]:
  "panel_ids (snd (showPreviewForTextarea h w t)) = panel_ids w"
  using showPreviewForTextarea_cases [of h w t] by auto

lemma panel_consistent_showPreviewForTextarea:
  assumes "panel_consistent w"
  shows "panel_consistent (snd (showPreviewForTextarea h w t))"
proof -
  have "panel_consistent (panel_update (\<lambda>x. x\<lparr>button_onclick := Some d\<rparr>) (showPreviewPanel w d t))" for d
    using panel_consistent_show [OF assms, of d t]
    by (simp add: panel_consistent_cong [OF visibility_panel_update])
  then show ?thesis
    using showPreviewForTextarea_cases [of h w t] assms panel_consistent_hide [OF assms]
    by auto
qed

lemma panel_ids_runCallback [simp]: "panel_ids (runCallback h w cb) = panel_ids w"
  by (cases cb) (simp_all add: runCallback_def Let_def)

lemma panel_consistent_runCallback:
  "panel_consistent w \<Longrightarrow> panel_consistent (runCallback h w cb)"
  by (cases cb)
    (simp_all add: runCallback_def Let_def panel_consistent_hide
      panel_consistent_showPreviewForTextarea
      panel_consistent_cong [OF visibility_debug]
      panel_consistent_cong [OF visibility_panel_update])

lemma panel_ids_fireTimer [simp]: "panel_ids (fireTimer h w n) = panel_ids w"
  by (simp add: fireTimer_def split: option.splits)

lemma panel_consistent_fireTimer:
  "panel_consistent w \<Longrightarrow> panel_consistent (fireTimer h w n)"
  by (simp add: fireTimer_def panel_consistent_runCallback
      panel_consistent_cong [OF visibility_fields(7)] split: option.splits)

lemma panel_ids_clickListener [simp]: "panel_ids (clickListener w t) = panel_ids w"
  by (simp add: clickListener_def split: option.splits)

lemma panel_consistent_clickListener:
  "panel_consistent w \<Longrightarrow> panel_consistent (clickListener w t)"
  by (simp add: clickListener_def panel_consistent_hide split: option.splits)

lemma formatCurrentElement_cases:
  "snd (formatCurrentElement h w) = w \<or>
   (\<exists>d. snd (formatCurrentElement h w) = copyToClipboard w d)"
proof (cases "lastRightClickedElement w")
  case None
  then show ?thesis by (simp add: formatCurrentElement_def)
next
  case (Some t)
  obtain r w1 where p: "processPayload h w (trim (value_of w t)) = (r, w1)"
    by (cases "processPayload h w (trim (value_of w t))")
  have w1: "w1 = w"
    using p processPayload_snd [of h w "trim (value_of w t)"] by simp
  show ?thesis
    by (cases r) (auto simp: formatCurrentElement_def Some Let_def p w1)
qed

lemma visibility_formatCurrentElement [simp]:
  "visibility (snd (formatCurrentElement h w)) = visibility w"
  using formatCurrentElement_cases [of h w] by auto

lemma visibility_onMessage [simp]: "visibility (onMessage h w a) = visibility w"
proof (cases "formatCurrentElement h w")
  case (Pair r w1)
  have "visibility w1 = visibility w"
    using visibility_formatCurrentElement [of h w] Pair by simp
  then show ?thesis
    by (cases r) (simp_all add: onMessage_def Pair)
qed

lemma panel_ids_onMessage [simp]: "panel_ids (onMessage h w a) = panel_ids w"
  by (rule panel_ids_visibility) simp

lemma panel_ids_dispatch: "panel_ids (dispatch h e w) = panel_ids w"
  by (cases e)
    (simp_all add: dispatch_def Let_def
      split: target.splits panel_part.splits)

lemma panel_consistent_dispatch:
  "panel_consistent w \<Longrightarrow> panel_consistent (dispatch h e w)"
  by (cases e)
    (simp_all add: dispatch_def Let_def panel_consistent_handleMouseMove
      panel_consistent_clickListener panel_consistent_fireTimer
      panel_consistent_cong [OF visibility_copyButtonClick]
      panel_consistent_cong [OF visibility_panelMouseEnter]
      panel_consistent_cong [OF visibility_buttonHoverListener]
      panel_consistent_cong [OF visibility_onMessage]
      panel_consistent_cong [OF visibility_settleWriteText]
      panel_consistent_cong [OF visibility_fields(1)]
      panel_consistent_cong [OF visibility_fields(6)]
      panel_consistent_cong [OF visibility_fields(9)]
      split: target.splits panel_part.splits)

lemma panel_ids_run: "panel_ids (run h es w) = panel_ids w"
  by (induction es arbitrary: w) (simp_all add: panel_ids_dispatch)

lemma panel_consistent_run: "panel_consistent w \<Longrightarrow> panel_consistent (run h es w)"
  by (induction es arbitrary: w) (simp_all add: panel_consistent_dispatch)


section \<open>The sample page, evaluated\<close>

lemmas script_defs =
  new_PayloadFormatter_def createPreviewPanel_def getThemeStyles_def detectAWSTheme_def
  debug_def setTimeout_def clearTimeout_def panel_update_def set_isVisible_def
  clearHoverTimer_def hidePreviewPanel_def positionPanel_def showPreviewPanel_def
  showCopyFeedback_def startHoverTimer_def isInDynamoDBConsole_def handleMouseMove_def
  has_data_def showPreviewForTextarea_def formatCurrentElement_def runCallback_def
  fireTimer_def clickListener_def copyButtonClick_def buttonHoverListener_def
  panelMouseEnter_def onMessage_def dispatch_def copyToClipboard_def copyFallback_def
  settleWriteText_def

lemma processPayload_success:
  assumes "atob h s = Inr (map ucast gz)"
    and "inflate h gz = Inr raw"
    and "JSON_parse h (utf8_decode h raw) = Inr v"
    and "JSON_stringify h v 2 = Inr pretty"
  shows "processPayload h w s =
           (Inr \<lparr>success = True, data = Some pretty, error = None\<rparr>, w)"
    and "processPayload_src h w s =
           (Inr \<lparr>success = True, data = Some pretty, error = None\<rparr>, copyToClipboard w pretty)"
proof -
  have b: "decodeBase64 h s = Inr gz"
    using assms(1) by (rule decodeBase64_binary)
  have g: "decompressGzip h gz = Inr raw"
    using assms(2) by (simp add: decompressGzip_def)
  show "processPayload h w s =
           (Inr \<lparr>success = True, data = Some pretty, error = None\<rparr>, w)"
    by (simp add: processPayload_def b g assms(3) assms(4))
  show "processPayload_src h w s =
           (Inr \<lparr>success = True, data = Some pretty, error = None\<rparr>, copyToClipboard w pretty)"
    by (simp add: processPayload_src_def b g assms(3) assms(4))
qed

lemma sample_host_decodes:
  "atob sample_host sample_b64 = Inr (map ucast sample_gz)"
  "inflate sample_host sample_gz = Inr sample_raw"
  "JSON_parse sample_host (utf8_decode sample_host sample_raw) = Inr sample_json"
  "JSON_stringify sample_host sample_json 2 = Inr sample_pretty"
  by (simp_all add: sample_host_def sample_raw_def sample_text_def)

lemmas processPayload_sample =
  processPayload_success [OF sample_host_decodes]

lemma processPayload_hello:
  "processPayload sample_host w hello_b64 = (Inr \<lparr>success = False, data = None, error = None\<rparr>, w)"
  by (simp add: processPayload_def decodeBase64_cases decompressGzip_def sample_host_def
      sample_payloads)

lemma sample_nodes_simps:
  "sample_nodes (Suc 0) = textarea (js ''  '' @ sample_b64 @ [10]) 50"
  "sample_nodes 2 = textarea hello_b64 150"
  "sample_nodes 3 = textarea (js ''   '') 250"
  "sample_nodes 4 = \<lparr>tagName = js ''INPUT'', node_value = js ''abc'', rect_left = 100, rect_right = 400, rect_top = 350\<rparr>"
  by (simp_all add: sample_nodes_def)

lemma trim_samples:
  "trim (js ''  '' @ sample_b64 @ [10]) = sample_b64"
  "trim hello_b64 = hello_b64"
  "trim (js ''   '') = []"
  by (simp_all add: trim_def isWhiteSpace_def sample_b64_def hello_b64_def js_def)

lemma sample_strings:
  "sample_b64 \<noteq> []" "hello_b64 \<noteq> []" "sample_pretty \<noteq> []"
  "js ''INPUT'' \<noteq> js ''TEXTAREA''" "js ''DIV'' \<noteq> js ''TEXTAREA''"
  "includes_str (js ''us-east-1.console.aws.amazon.com'') (js ''console.aws.amazon.com'')"
  by (simp_all add: sample_b64_def hello_b64_def sample_pretty_def js_def)

lemmas sample_eval =
  loaded_page_def sample_page_def script_defs Let_def sample_nodes_simps textarea_def
  trim_samples sample_strings processPayload_sample processPayload_hello

lemma preview_shown_eq:
  "preview_shown =
     \<lparr>lastRightClickedElement = None, hoverTimeout = Some 1,
      previewPanel = Some \<lparr>element = 0, isVisible = True\<rparr>,
      currentHoveredTextarea = Some (PageNode 1), lastMouseMoveTime = 1000, debugMode = False,
      nodes = sample_nodes,
      panels = [\<lparr>display = js ''block'', style_left = Some 410, style_top = Some 50,
                 textContent = sample_pretty, content_color = [],
                 button_textContent = js ''Copy'', button_background = js ''#3182ce'',
                 button_display = [], button_onclick = Some sample_pretty,
                 hover_colors = (js ''#2c5aa0'', js ''#3182ce'')\<rparr>],
      timers = [], timerSeq = 1,
      hostname = js ''us-east-1.console.aws.amazon.com'', awsTheme = Light,
      innerWidth = 1280, innerHeight = 720, panelHovered = False,
      dynamoDBFormatterDebug = False, clipboardAvailable = True, pendingWrites = [],
      execCommandOk = True, execCopies = [], clipboard = None, responses = [],
      console = []\<rparr>"
  by (simp add: preview_shown_def sample_eval)

section \<open>Properties of the content script\<close>

text \<open>
  C3 as stated fails for \<open>processPayload\<close> of \<open>src/content.ts\<close>, which is not free of
  effects: on the sample payload it leaves a clipboard write pending, and the sample JSON
  is on the clipboard once that write resolves.
\<close>

theorem processPayload_src_writes_clipboard:
  "pendingWrites sample_page = [] \<and> clipboard sample_page = None \<and>
   pendingWrites (snd (processPayload_src sample_host sample_page sample_b64)) = [sample_pretty] \<and>
   clipboard (settleWriteText (snd (processPayload_src sample_host sample_page sample_b64)) True) =
     Some sample_pretty"
  by (simp add: processPayload_sample sample_page_def copyToClipboard_def settleWriteText_def)

text \<open>
  C3, amended. \<open>processPayload\<close> of the content script with the hover
  preview changes no state, and its result is the same in every state. \<open>processPayload\<close>
  of \<open>src/content.ts\<close> also returns a result that is the same in every state, and it
  leaves the state as it was when it returns a failure; when it returns a success it has
  called \<open>copyToClipboard\<close> with the formatted JSON.
\<close>

theorem processPayload_effects:
  "snd (processPayload h w s) = w \<and>
   fst (processPayload h w s) = fst (processPayload h w' s) \<and>
   fst (processPayload_src h w s) = fst (processPayload_src h w' s) \<and>
   snd (processPayload_src h w s) =
     (case fst (processPayload_src h w s) of
        Inl e \<Rightarrow> w
      | Inr r \<Rightarrow> (if success r then copyToClipboard w (the (data r)) else w))"
  by (auto simp: processPayload_def processPayload_src_def failure_src_def split: sum.splits)

text \<open>
  C4. \<open>formatCurrentElement\<close> (of either content script) returns
  \<open>No element selected\<close> when nothing was right-clicked,
  \<open>Selected element is not a textarea\<close> when the last right-clicked element's tag is not
  \<open>TEXTAREA\<close>, \<open>Textarea is empty\<close> when the trimmed value is empty, and otherwise
  the result of \<open>processPayload\<close> on the trimmed value, in that order.
\<close>

theorem formatCurrentElement_validation:
  "(lastRightClickedElement w = None \<longrightarrow>
      fst (formatCurrentElement h w) =
        Inr \<lparr>success = False, data = None, error = Some (js ''No element selected'')\<rparr> \<and>
      fst (formatCurrentElement_src h w) =
        Inr \<lparr>success = False, data = None, error = Some (js ''No element selected'')\<rparr>) \<and>
   (\<forall>t. lastRightClickedElement w = Some t \<and> tagName_of w t \<noteq> js ''TEXTAREA'' \<longrightarrow>
      fst (formatCurrentElement h w) =
        Inr \<lparr>success = False, data = None,
             error = Some (js ''Selected element is not a textarea'')\<rparr> \<and>
      fst (formatCurrentElement_src h w) =
        Inr \<lparr>success = False, data = None,
             error = Some (js ''Selected element is not a textarea'')\<rparr>) \<and>
   (\<forall>t. lastRightClickedElement w = Some t \<and> tagName_of w t = js ''TEXTAREA'' \<and>
        trim (value_of w t) = [] \<longrightarrow>
      fst (formatCurrentElement h w) =
        Inr \<lparr>success = False, data = None, error = Some (js ''Textarea is empty'')\<rparr> \<and>
      fst (formatCurrentElement_src h w) =
        Inr \<lparr>success = False, data = None, error = Some (js ''Textarea is empty'')\<rparr>) \<and>
   (\<forall>t. lastRightClickedElement w = Some t \<and> tagName_of w t = js ''TEXTAREA'' \<and>
        trim (value_of w t) \<noteq> [] \<longrightarrow>
      fst (formatCurrentElement h w) = fst (processPayload h w (trim (value_of w t))) \<and>
      fst (formatCurrentElement_src h w) = fst (processPayload_src h w (trim (value_of w t))))"
  by (auto simp: formatCurrentElement_def formatCurrentElement_src_def Let_def
      split: prod.splits sum.splits)

theorem formatCurrentElement_validation_witness:
  "fst (formatCurrentElement sample_host loaded_page) =
     Inr \<lparr>success = False, data = None, error = Some (js ''No element selected'')\<rparr> \<and>
   fst (formatCurrentElement sample_host (dispatch sample_host (ContextMenu (PageNode 4)) loaded_page)) =
     Inr \<lparr>success = False, data = None, error = Some (js ''Selected element is not a textarea'')\<rparr> \<and>
   fst (formatCurrentElement sample_host (dispatch sample_host (ContextMenu (PageNode 3)) loaded_page)) =
     Inr \<lparr>success = False, data = None, error = Some (js ''Textarea is empty'')\<rparr> \<and>
   fst (formatCurrentElement sample_host (dispatch sample_host (ContextMenu (PageNode 1)) loaded_page)) =
     Inr \<lparr>success = True, data = Some sample_pretty, error = None\<rparr> \<and>
   fst (formatCurrentElement_src sample_host (dispatch sample_host (ContextMenu (PageNode 1)) loaded_page)) =
     Inr \<lparr>success = True, data = Some sample_pretty, error = None\<rparr>"
  using formatCurrentElement_validation [of loaded_page sample_host]
    formatCurrentElement_validation
      [of "dispatch sample_host (ContextMenu (PageNode 4)) loaded_page" sample_host]
    formatCurrentElement_validation
      [of "dispatch sample_host (ContextMenu (PageNode 3)) loaded_page" sample_host]
    formatCurrentElement_validation
      [of "dispatch sample_host (ContextMenu (PageNode 1)) loaded_page" sample_host]
  by (simp add: sample_eval)

text \<open>
  Whatever the host, a failure of \<open>processPayload\<close> (with the hover preview) carries no
  \<open>error\<close>, and \<open>formatCurrentElement\<close> hands it on as it is.
\<close>

lemma processPayload_failure_no_error:
  "fst (processPayload h w s) = Inr r \<Longrightarrow> \<not> success r \<Longrightarrow> error r = None"
  by (auto simp: processPayload_def split: sum.splits)

text \<open>
  C5, at a textarea that holds valid base64 of bytes that are no gzip data (element 2):
  the response to \<open>formatPayload\<close> is \<open>{success: false}\<close> with no \<open>error\<close>, and the
  background script's notification reads \<open>Error: undefined\<close>.
\<close>

theorem decode_failure_response_has_no_error:
  "responses (run sample_host [ContextMenu (PageNode 2), Message (js ''formatPayload'')]
      (new_PayloadFormatter sample_page)) =
     [\<lparr>success = False, data = None, error = None\<rparr>] \<and>
   notificationMessage (Some \<lparr>success = False, data = None, error = None\<rparr>) =
     js ''Error: undefined''"
  by (simp add: sample_eval notificationMessage_def js_def)

text \<open>
  Whatever the state, a handled \<open>mousemove\<close> over a panel element while a textarea is
  hovered clears the hovered textarea and leaves the panel hidden; the delayed hide of
  \<open>handleMouseLeave\<close>, which no event reaches, would keep a hovered panel.
\<close>

lemma panel_tagName: "tagName_of w (PanelNode i part) \<noteq> js ''TEXTAREA''"
  by (cases part) (simp_all add: js_def)

lemma hidePreviewPanel_hidden:
  "previewPanel w = Some p \<Longrightarrow>
   previewPanel (hidePreviewPanel w) = Some (p\<lparr>isVisible := False\<rparr>)"
proof -
  assume p: "previewPanel w = Some p"
  have "fst (visibility (hidePreviewPanel w)) = Some (p\<lparr>isVisible := False\<rparr>)"
    by (simp add: hidePreviewPanel_def p)
      (simp add: visibility_def set_isVisible_def panel_update_def debug_def p)
  then show ?thesis
    by (simp add: visibility_def)
qed

lemma handleMouseMove_over_panel:
  assumes "100 \<le> now - lastMouseMoveTime w"
    and "currentHoveredTextarea w \<noteq> None"
    and "previewPanel w = Some p"
  shows "previewPanel (handleMouseMove w (PanelNode i part) now) =
           Some (p\<lparr>isVisible := False\<rparr>) \<and>
         currentHoveredTextarea (handleMouseMove w (PanelNode i part) now) = None"
proof -
  let ?w1 = "clearHoverTimer (w\<lparr>lastMouseMoveTime := now, currentHoveredTextarea := None\<rparr>)"
  have m: "handleMouseMove w (PanelNode i part) now = hidePreviewPanel ?w1"
    using assms(1,2) panel_tagName [of "w\<lparr>lastMouseMoveTime := now\<rparr>" i part]
    by (simp add: handleMouseMove_def Let_def)
  have p1: "previewPanel ?w1 = Some p"
    using assms(3) visibility_clearHoverTimer
      [of "w\<lparr>lastMouseMoveTime := now, currentHoveredTextarea := None\<rparr>"]
    by (simp add: visibility_def)
  have c1: "currentHoveredTextarea ?w1 = None"
    by (simp add: clearHoverTimer_def clearTimeout_def debug_def split: option.splits)
  have c2: "currentHoveredTextarea (hidePreviewPanel ?w1) = currentHoveredTextarea ?w1"
    by (simp add: hidePreviewPanel_def clearHoverTimer_def clearTimeout_def debug_def
        set_isVisible_def panel_update_def split: option.splits)
  show ?thesis
    unfolding m using hidePreviewPanel_hidden [OF p1] c1 c2 by simp
qed

lemma LeaveHide_keeps_hovered_panel:
  "previewPanel w \<noteq> None \<Longrightarrow> panelHovered w \<Longrightarrow> runCallback h w LeaveHide = w"
  by (simp add: runCallback_def)

text \<open>
  C6, with the preview shown for element 1 and the pointer moving from the textarea onto
  the panel, 200 ms after the last handled \<open>mousemove\<close>: the panel's \<open>mouseenter\<close>
  handler runs, then \<open>handleMouseMove\<close> sees a target that is no textarea and hides the
  panel, although the pointer is over the panel.
\<close>

theorem mousemove_over_panel_hides_it:
  "previewPanel preview_shown = Some \<lparr>element = 0, isVisible = True\<rparr> \<and>
   previewPanel
     (run sample_host
        [SetPanelHovered True, MouseEnter (PanelNode 0 PanelDiv),
         MouseMove (PanelNode 0 ContentDiv) 1200] preview_shown) =
     Some \<lparr>element = 0, isVisible = False\<rparr> \<and>
   map display
     (panels (run sample_host
        [SetPanelHovered True, MouseEnter (PanelNode 0 PanelDiv),
         MouseMove (PanelNode 0 ContentDiv) 1200] preview_shown)) = [js ''none'']"
  by (simp add: preview_shown_eq script_defs Let_def sample_strings)


lemma panel_ids_new:
  "panel_ids (new_PayloadFormatter w0) = (Some (length (panels w0)), Suc (length (panels w0)))"
  by (simp add: panel_ids_def new_PayloadFormatter_def createPreviewPanel_def Let_def)

lemma panel_ids_showErrorPreview: "panel_ids (showErrorPreview w e t) = panel_ids w"
proof (cases "previewPanel w")
  case None
  then show ?thesis by (simp add: showErrorPreview_def)
next
  case (Some p)
  have "panel_ids (snd (setTimeout w' cb n)) = panel_ids w'" for w' cb n
    by (rule panel_ids_visibility) simp
  then show ?thesis
    by (simp add: showErrorPreview_def Some Let_def)
qed

lemma panel_ids_handleMouseLeave: "panel_ids (handleMouseLeave w t) = panel_ids w"
proof -
  have "panel_ids (snd (setTimeout w' cb n)) = panel_ids w'" for w' cb n
    by (rule panel_ids_visibility) simp
  then show ?thesis
    by (simp add: handleMouseLeave_def Let_def)
qed

text \<open>
  C7. Loading the script on a document without preview panels creates exactly one; after
  any sequence of events the document still holds exactly one, \<open>_previewPanel.element\<close>
  still refers to it, and so at most one panel is displayed. \<open>showErrorPreview\<close> and
  \<open>handleMouseLeave\<close>, which no event reaches, create none either.
\<close>

theorem single_preview_panel:
  assumes "panels w0 = []"
  shows "length (panels (new_PayloadFormatter w0)) = 1 \<and>
         length (panels (run h es (new_PayloadFormatter w0))) = 1 \<and>
         map_option element (previewPanel (run h es (new_PayloadFormatter w0))) = Some 0 \<and>
         length (filter (\<lambda>d. display d = js ''block'')
                   (panels (run h es (new_PayloadFormatter w0)))) \<le> 1 \<and>
         length (panels (showErrorPreview w err t)) = length (panels w) \<and>
         length (panels (handleMouseLeave w t)) = length (panels w)"
proof -
  have n: "panel_ids (new_PayloadFormatter w0) = (Some 0, 1)"
    using assms by (simp add: panel_ids_new)
  have r: "panel_ids (run h es (new_PayloadFormatter w0)) = (Some 0, 1)"
    by (simp add: panel_ids_run n)
  have l: "length (panels (run h es (new_PayloadFormatter w0))) = 1"
    using r by (simp add: panel_ids_def)
  have "length (filter (\<lambda>d. display d = js ''block'')
                   (panels (run h es (new_PayloadFormatter w0))))
          \<le> length (panels (run h es (new_PayloadFormatter w0)))"
    by (rule length_filter_le)
  with l have f: "length (filter (\<lambda>d. display d = js ''block'')
                   (panels (run h es (new_PayloadFormatter w0)))) \<le> 1"
    by simp
  have e: "length (panels (showErrorPreview w err t)) = length (panels w)"
    using panel_ids_showErrorPreview [of w err t] by (simp add: panel_ids_def)
  have m: "length (panels (handleMouseLeave w t)) = length (panels w)"
    using panel_ids_handleMouseLeave [of w t] by (simp add: panel_ids_def)
  show ?thesis
    using n r l f e m by (simp add: panel_ids_def)
qed

theorem single_preview_panel_witness:
  "panels sample_page = [] \<and>
   length (panels (new_PayloadFormatter sample_page)) = 1 \<and>
   length (panels (run sample_host [MouseMove (PageNode 1) 1000, TimerFired 1]
      (new_PayloadFormatter sample_page))) = 1 \<and>
   map_option element (previewPanel (run sample_host [MouseMove (PageNode 1) 1000, TimerFired 1]
      (new_PayloadFormatter sample_page))) = Some 0 \<and>
   length (filter (\<lambda>d. display d = js ''block'')
     (panels (run sample_host [MouseMove (PageNode 1) 1000, TimerFired 1]
        (new_PayloadFormatter sample_page)))) \<le> 1"
proof -
  have p: "panels sample_page = []"
    by (simp add: sample_page_def)
  show ?thesis
    using single_preview_panel
      [OF p, of sample_host "[MouseMove (PageNode 1) 1000, TimerFired 1]"] p
    by simp
qed

text \<open>
  C8. When \<open>formatCurrentElement\<close> returns a success with non-empty \<open>data\<close>, the state
  it leaves is that of \<open>copyToClipboard\<close> called on the data. With the clipboard API
  available the write is still pending at the return and the clipboard unchanged (the
  result did not wait for it); a resolved promise then puts the data on the clipboard, a
  rejected one runs the manual copy. With the API unavailable the manual copy has run.
  The manual copy runs \<open>execCommand('copy')\<close> on the data and, where that works, puts
  the data on the clipboard. \<open>copyToClipboard\<close> returns a state on each of these paths
  and throws on none.
\<close>

theorem formatCurrentElement_copies:
  assumes "fst (formatCurrentElement h w) = Inr r" and "success r" and "data r = Some d"
    and "d \<noteq> []"
  shows "snd (formatCurrentElement h w) = copyToClipboard w d \<and>
         (clipboardAvailable w \<longrightarrow>
            pendingWrites (snd (formatCurrentElement h w)) = pendingWrites w @ [d] \<and>
            clipboard (snd (formatCurrentElement h w)) = clipboard w \<and>
            execCopies (snd (formatCurrentElement h w)) = execCopies w) \<and>
         (clipboardAvailable w \<and> pendingWrites w = [] \<longrightarrow>
            clipboard (settleWriteText (snd (formatCurrentElement h w)) True) = Some d \<and>
            settleWriteText (snd (formatCurrentElement h w)) False = copyFallback w d) \<and>
         (\<not> clipboardAvailable w \<longrightarrow> snd (formatCurrentElement h w) = copyFallback w d) \<and>
         execCopies (copyFallback w d) = execCopies w @ [d] \<and>
         (execCommandOk w \<longrightarrow> clipboard (copyFallback w d) = Some d)"
proof -
  have c: "snd (formatCurrentElement h w) = copyToClipboard w d"
  proof (cases "lastRightClickedElement w")
    case None
    with assms show ?thesis by (auto simp: formatCurrentElement_def)
  next
    case (Some t)
    obtain x w1 where p: "processPayload h w (trim (value_of w t)) = (x, w1)"
      by (cases "processPayload h w (trim (value_of w t))")
    have w1: "w1 = w"
      using p processPayload_snd [of h w "trim (value_of w t)"] by simp
    show ?thesis
      using assms
      by (cases x)
        (auto simp: formatCurrentElement_def Some Let_def p w1 has_data_def
          split: if_splits)
  qed
  show ?thesis
    unfolding c
    by (simp add: copyToClipboard_def copyFallback_def settleWriteText_def)
qed

theorem formatCurrentElement_copies_witness:
  "fst (formatCurrentElement sample_host
          (dispatch sample_host (ContextMenu (PageNode 1)) loaded_page)) =
     Inr \<lparr>success = True, data = Some sample_pretty, error = None\<rparr> \<and>
   sample_pretty \<noteq> [] \<and>
   clipboardAvailable (dispatch sample_host (ContextMenu (PageNode 1)) loaded_page) \<and>
   pendingWrites (snd (formatCurrentElement sample_host
          (dispatch sample_host (ContextMenu (PageNode 1)) loaded_page))) = [sample_pretty] \<and>
   clipboard (snd (formatCurrentElement sample_host
          (dispatch sample_host (ContextMenu (PageNode 1)) loaded_page))) = None \<and>
   clipboard (settleWriteText (snd (formatCurrentElement sample_host
          (dispatch sample_host (ContextMenu (PageNode 1)) loaded_page))) True) =
     Some sample_pretty \<and>
   clipboard (settleWriteText (snd (formatCurrentElement sample_host
          (dispatch sample_host (ContextMenu (PageNode 1)) loaded_page))) False) =
     Some sample_pretty"
proof -
  have r: "fst (formatCurrentElement sample_host
          (dispatch sample_host (ContextMenu (PageNode 1)) loaded_page)) =
     Inr \<lparr>success = True, data = Some sample_pretty, error = None\<rparr>"
    by (simp add: sample_eval)
  have a: "clipboardAvailable (dispatch sample_host (ContextMenu (PageNode 1)) loaded_page)"
    "pendingWrites (dispatch sample_host (ContextMenu (PageNode 1)) loaded_page) = []"
    "clipboard (dispatch sample_host (ContextMenu (PageNode 1)) loaded_page) = None"
    "execCommandOk (dispatch sample_host (ContextMenu (PageNode 1)) loaded_page)"
    by (simp_all add: sample_eval)
  have n: "sample_pretty \<noteq> []"
    by (simp add: sample_strings)
  show ?thesis
    using formatCurrentElement_copies [OF r _ _ n] r a n
    by (simp add: copyToClipboard_def copyFallback_def settleWriteText_def)
qed

lemma value_of_debug [simp]: "value_of (debug w m) t = value_of w t"
  by (cases t) (simp_all add: debug_def)

text \<open>
  C9. When the textarea's value trims to the empty string, \<open>showPreviewForTextarea\<close>
  returns with the state unchanged, and so the hover timer's callback leaves the
  \<open>PreviewPanel\<close> object and every panel subtree as they were.
\<close>

theorem showPreviewForTextarea_blank:
  assumes "trim (value_of w ta) = []"
  shows "showPreviewForTextarea h w ta = (Inr (), w) \<and>
         previewPanel (runCallback h w (HoverTimer ta)) = previewPanel w \<and>
         panels (runCallback h w (HoverTimer ta)) = panels w"
proof -
  have s: "showPreviewForTextarea h w' ta = (Inr (), w')" if "trim (value_of w' ta) = []" for w'
    using that by (simp add: showPreviewForTextarea_def)
  have d: "trim (value_of (debug w (js ''hover timer fired'')) ta) = []"
    using assms by simp
  show ?thesis
    by (simp add: s [OF assms] s [OF d] runCallback_def Let_def)
      (simp add: debug_def)
qed

theorem showPreviewForTextarea_blank_witness:
  "trim (value_of blank_hovered (PageNode 3)) = [] \<and>
   currentHoveredTextarea blank_hovered = Some (PageNode 3) \<and>
   previewPanel blank_hovered = Some \<lparr>element = 0, isVisible = True\<rparr> \<and>
   map textContent (panels blank_hovered) = [sample_pretty] \<and>
   showPreviewForTextarea sample_host blank_hovered (PageNode 3) = (Inr (), blank_hovered) \<and>
   previewPanel (runCallback sample_host blank_hovered (HoverTimer (PageNode 3))) =
     Some \<lparr>element = 0, isVisible = True\<rparr> \<and>
   map textContent (panels (runCallback sample_host blank_hovered (HoverTimer (PageNode 3)))) =
     [sample_pretty]"
proof -
  have t: "trim (value_of blank_hovered (PageNode 3)) = []"
    by (simp add: blank_hovered_def preview_shown_eq script_defs Let_def sample_nodes_simps
        textarea_def trim_samples sample_strings)
  have s: "currentHoveredTextarea blank_hovered = Some (PageNode 3)"
    "previewPanel blank_hovered = Some \<lparr>element = 0, isVisible = True\<rparr>"
    "map textContent (panels blank_hovered) = [sample_pretty]"
    by (simp_all add: blank_hovered_def preview_shown_eq script_defs Let_def sample_nodes_simps
        textarea_def trim_samples sample_strings)
  show ?thesis
    using showPreviewForTextarea_blank [OF t, of sample_host] t s by simp
qed

text \<open>
  C10. \<open>isVisible\<close> agrees with the panel element's \<open>display\<close>: it does after
  \<open>createPreviewPanel\<close>; \<open>showPreviewPanel\<close>, \<open>showErrorPreview\<close> and
  \<open>hidePreviewPanel\<close> keep it so; and it holds, of a panel that exists, after any
  sequence of events.
\<close>

theorem isVisible_agrees_with_display:
  "panel_consistent (createPreviewPanel w0) \<and>
   (panel_consistent w \<longrightarrow>
      panel_consistent (showPreviewPanel w content t) \<and>
      panel_consistent (showErrorPreview w err t) \<and>
      panel_consistent (hidePreviewPanel w)) \<and>
   panel_consistent (run h es (new_PayloadFormatter w0)) \<and>
   previewPanel (run h es (new_PayloadFormatter w0)) \<noteq> None"
proof -
  have "panel_ids (run h es (new_PayloadFormatter w0)) =
          (Some (length (panels w0)), Suc (length (panels w0)))"
    by (simp add: panel_ids_run panel_ids_new)
  then have "previewPanel (run h es (new_PayloadFormatter w0)) \<noteq> None"
    by (auto simp: panel_ids_def)
  then show ?thesis
    by (simp add: panel_consistent_create panel_consistent_show panel_consistent_showError
        panel_consistent_hide panel_consistent_run panel_consistent_new)
qed

theorem isVisible_agrees_with_display_witness:
  "panel_consistent preview_shown \<and>
   isVisible (the (previewPanel preview_shown)) \<and>
   panel_consistent (hidePreviewPanel preview_shown) \<and>
   \<not> isVisible (the (previewPanel (hidePreviewPanel preview_shown))) \<and>
   panel_consistent (showPreviewPanel (hidePreviewPanel preview_shown) sample_pretty (PageNode 1)) \<and>
   panel_consistent (showErrorPreview preview_shown (js ''x'') (PageNode 1))"
proof -
  have c: "panel_consistent preview_shown"
    using isVisible_agrees_with_display
      [of sample_page preview_shown sample_pretty "PageNode 1" "js ''x''" sample_host
        "[MouseMove (PageNode 1) 1000, TimerFired 1]"]
    by (simp add: preview_shown_def loaded_page_def)
  have v: "isVisible (the (previewPanel preview_shown))"
    "\<not> isVisible (the (previewPanel (hidePreviewPanel preview_shown)))"
    by (simp_all add: preview_shown_eq script_defs)
  have h: "panel_consistent (hidePreviewPanel preview_shown)"
    using isVisible_agrees_with_display
      [of sample_page preview_shown sample_pretty "PageNode 1" "js ''x''" sample_host "[]"] c
    by simp
  show ?thesis
    using isVisible_agrees_with_display
      [of sample_page preview_shown sample_pretty "PageNode 1" "js ''x''" sample_host "[]"]
      isVisible_agrees_with_display
      [of sample_page "hidePreviewPanel preview_shown" sample_pretty "PageNode 1" "js ''x''"
        sample_host "[]"] c v h
    by simp
qed

end
